theory Spec2Isabelle
  imports Complex_Main "HOL-Library.Word"
begin

section \<open>DragonNetworkTester: the data model\<close>

text \<open>
  The source is one Python file, \<^verbatim>\<open>DragonNetworkTester.py\<close>. Python integers are
  modelled as \<open>int\<close>, Python floats (times, rates, percentages) as \<open>real\<close> with exact
  arithmetic, bytes as \<open>8 word\<close>. Leading underscores of Python names are dropped
  (\<^verbatim>\<open>_generate_packet\<close> is \<open>generate_packet\<close>).

  \<open>py_error\<close> holds the exceptions the modelled code raises that are subclasses of
  \<^verbatim>\<open>Exception\<close>: they are what \<^verbatim>\<open>except Exception\<close> catches (lines 184, 227, 424).
  \<^verbatim>\<open>KeyboardInterrupt\<close> is not one of them: the interpreter raises it in the main
  thread only, and it is the other alternative of \<open>raised\<close>.
\<close>

datatype py_error = ValueError | ZeroDivisionError | OSError | TypeError

datatype raised = Exc py_error | KeyboardInterrupt

subsection \<open>\<^verbatim>\<open>NetworkStats\<close> (lines 45-69)\<close>

record NetworkStats =
  packets_sent :: int
  bytes_sent :: int
  failed_attempts :: int
  successful_attempts :: int
  start_time :: real
  response_times :: "real list"
  packet_sizes :: "int list"

text \<open>
  The dataclass defaults followed by \<^verbatim>\<open>__post_init__\<close>; the argument is the value
  \<^verbatim>\<open>time.time()\<close> returns there.
\<close>

definition new_stats :: "real \<Rightarrow> NetworkStats" where
  "new_stats now =
     \<lparr>packets_sent = 0, bytes_sent = 0, failed_attempts = 0, successful_attempts = 0,
      start_time = now, response_times = [], packet_sizes = []\<rparr>"

text \<open>
  \<^verbatim>\<open>total = self.packets_sent + self.failed_attempts\<close>
  \<^verbatim>\<open>return (self.packets_sent / total * 100) if total > 0 else 0.0\<close>
\<close>

definition success_rate :: "NetworkStats \<Rightarrow> real" where
  "success_rate s =
     (let total = packets_sent s + failed_attempts s
      in if total > 0 then real_of_int (packets_sent s) / real_of_int total * 100 else 0)"

text \<open>
  \<^verbatim>\<open>return statistics.mean(self.response_times) if self.response_times else 0.0\<close>
\<close>

definition mean :: "real list \<Rightarrow> real" where
  "mean xs = sum_list xs / real (length xs)"

definition average_response :: "NetworkStats \<Rightarrow> real" where
  "average_response s = (if response_times s \<noteq> [] then mean (response_times s) else 0)"

subsection \<open>The outside world\<close>

text \<open>
  What the program reads from its surroundings is a parameter of the model
  (\<open>env\<close>); what it does to them is recorded in \<open>world\<close>. Sleeping
  (\<^verbatim>\<open>time.sleep\<close>) changes neither and is left out; of the resource sampler only
  whether its thread is running is kept, and the progress display is outside the
  modelled core.
\<close>

datatype send_result = Sent real | Raised py_error

record env =
  log_file_ok :: bool
  fd_limit :: nat
  sockbuf_ok :: "int \<Rightarrow> bool"
  reachable :: bool
  t_init :: real
  t_report :: real
  header_bytes :: "nat \<Rightarrow> nat \<Rightarrow> nat \<Rightarrow> 8 word"
  payload_bytes :: "nat \<Rightarrow> nat \<Rightarrow> nat \<Rightarrow> 8 word"
  transport :: "nat \<Rightarrow> nat \<Rightarrow> send_result"
  sched_run :: "nat list"
  interrupt :: bool
  sched_drain :: "nat list"

text \<open>
  \<^item> \<open>log_file_ok\<close>: whether \<^verbatim>\<open>logging.FileHandler\<close> of line 155 can open its
    file; it raises \<open>OSError\<close> otherwise.
  \<^item> \<open>fd_limit\<close>: how many sockets the operating system grants in all;
    \<^verbatim>\<open>socket.socket\<close> raises \<open>OSError\<close> beyond it.
  \<^item> \<open>sockbuf_ok v\<close>: whether the operating system accepts \<open>v\<close> as the size of a
    socket buffer; \<^verbatim>\<open>setsockopt\<close> raises \<open>OSError\<close> otherwise.
  \<^item> \<open>reachable\<close>: whether the TCP probe of line 182 connects.
  \<^item> \<open>t_init\<close>, \<open>t_report\<close>: what \<^verbatim>\<open>time.time()\<close> returns in
    \<^verbatim>\<open>__post_init__\<close> and in \<^verbatim>\<open>_display_final_report\<close>.
  \<^item> \<open>header_bytes i k\<close>, \<open>payload_bytes i k\<close>: the values \<^verbatim>\<open>random.randint\<close> and
    \<^verbatim>\<open>random._urandom\<close> produce for worker \<open>i\<close> in its iteration \<open>k\<close>.
  \<^item> \<open>transport i k\<close>: what \<^verbatim>\<open>sock.sendto\<close> does for worker \<open>i\<close> in its iteration
    \<open>k\<close>: it returns after the given time, or raises a subclass of
    \<^verbatim>\<open>Exception\<close>.
  \<^item> \<open>sched_run\<close>: the interleaving of the workers while the main thread sleeps
    (line 254), one worker index per atomic step; \<open>sched_drain\<close>: the same while
    the main thread waits for the workers to end.
  \<^item> \<open>interrupt\<close>: a \<^verbatim>\<open>KeyboardInterrupt\<close> reaches the main thread during that
    sleep.
\<close>

record report =
  total_time :: real
  total_packets :: int
  total_data_mb :: real
  packet_rate :: real
  failed :: int
  success_pct :: real
  avg_response_ms :: real

datatype log_entry = Warning_unreachable | Error_thread nat py_error | Info_cleaned_up

datatype console_line =
  Banner | Cleared | Report_header | Final_report report | Interrupted_msg | Fatal_msg py_error

record world =
  sock_table :: "bool list"
  locks :: "bool list"
  wire :: "(nat \<times> nat) list"
  logged :: "log_entry list"
  console :: "console_line list"
  monitor_running :: bool

text \<open>
  \<^item> \<open>sock_table\<close>: every socket created so far, by handle; \<open>True\<close> is open.
  \<^item> \<open>locks\<close>: every \<^verbatim>\<open>threading.Lock\<close> object created so far; \<open>True\<close> is held.
  \<^item> \<open>wire\<close>: worker and datagram length of each \<^verbatim>\<open>sendto\<close> that returned.
  \<^item> \<open>logged\<close>, \<open>console\<close>: what went to \<^verbatim>\<open>logging\<close> and to the console.
  \<^item> \<open>monitor_running\<close>: the thread of \<^verbatim>\<open>_monitor_system_resources\<close> has been
    started (line 241) and not joined (line 261). It is not a daemon thread and loops
    until the stop event is set.
\<close>

definition new_socket :: "env \<Rightarrow> world \<Rightarrow> (py_error + nat) \<times> world" where
  "new_socket e w =
     (if length (sock_table w) < fd_limit e
      then (Inr (length (sock_table w)), w\<lparr>sock_table := sock_table w @ [True]\<rparr>)
      else (Inl OSError, w))"

definition close_socket :: "nat \<Rightarrow> world \<Rightarrow> world" where
  "close_socket h w = w\<lparr>sock_table := (sock_table w)[h := False]\<rparr>"

section \<open>\<^verbatim>\<open>DragonNetworkTester\<close>\<close>

subsection \<open>Construction (lines 103-185)\<close>

record tester =
  target :: "string \<times> int"
  duration :: int
  thread_count :: int
  packet_size :: int
  buffer_size :: int
  verbose :: bool
  stats :: NetworkStats
  stop_event :: bool
  sockets :: "nat list"

text \<open>
  \<^verbatim>\<open>validate_input\<close>, lines 139-146. The parameter is annotated \<^verbatim>\<open>str\<close>, so
  \<^verbatim>\<open>not ip or not isinstance(ip, str)\<close> is the test for the empty string.
\<close>

definition validate_input :: "string \<Rightarrow> int \<Rightarrow> int \<Rightarrow> py_error + unit" where
  "validate_input ip port dur =
     (if ip = [] then Inl ValueError
      else if \<not> (0 \<le> port \<and> port \<le> 65535) then Inl ValueError
      else if dur \<le> 0 then Inl ValueError
      else Inr ())"

text \<open>
  \<^verbatim>\<open>sock.setsockopt(socket.SOL_SOCKET, option, value)\<close> for a buffer size: the value
  must fit a C \<^verbatim>\<open>int\<close>, and \<open>TypeError\<close> is raised otherwise; then the operating
  system accepts it or not.
\<close>

definition setsockopt :: "env \<Rightarrow> int \<Rightarrow> py_error + unit" where
  "setsockopt e v =
     (if - 2147483648 \<le> v \<and> v \<le> 2147483647
      then (if sockbuf_ok e v then Inr () else Inl OSError)
      else Inl TypeError)"

text \<open>
  \<^verbatim>\<open>_setup_sockets\<close>, lines 160-175: one UDP socket per round of
  \<^verbatim>\<open>for _ in range(self.thread_count)\<close>; the arguments are \<^verbatim>\<open>self.buffer_size\<close> and
  the number of rounds left. Lines 168 and 169 set \<^verbatim>\<open>SO_RCVBUF\<close> and \<^verbatim>\<open>SO_SNDBUF\<close>
  to the same value, so they raise together; the options of lines 170 and 173 are set
  to 1. A round that raises ends the loop and leaves the sockets made so far open.
\<close>

fun setup_sockets :: "env \<Rightarrow> int \<Rightarrow> nat \<Rightarrow> world \<Rightarrow> (py_error + nat list) \<times> world" where
  "setup_sockets e bs 0 w = (Inr [], w)"
| "setup_sockets e bs (Suc n) w =
     (case new_socket e w of
        (Inl err, w') \<Rightarrow> (Inl err, w')
      | (Inr h, w') \<Rightarrow>
          (case setsockopt e bs of
             Inl err \<Rightarrow> (Inl err, w')
           | Inr _ \<Rightarrow>
               (case setup_sockets e bs n w' of
                  (Inl err, w'') \<Rightarrow> (Inl err, w'')
                | (Inr hs, w'') \<Rightarrow> (Inr (h # hs), w''))))"

text \<open>
  \<^verbatim>\<open>_check_target_availability\<close>, lines 177-185: every exception is caught and
  logged as a warning; \<^verbatim>\<open>test_socket.close()\<close> is reached only when the connection
  succeeds.
\<close>

definition check_target_availability :: "env \<Rightarrow> world \<Rightarrow> world" where
  "check_target_availability e w =
     (case new_socket e w of
        (Inl err, w') \<Rightarrow> w'\<lparr>logged := logged w' @ [Warning_unreachable]\<rparr>
      | (Inr h, w') \<Rightarrow>
          (if reachable e then close_socket h w'
           else w'\<lparr>logged := logged w' @ [Warning_unreachable]\<rparr>))"

text \<open>
  \<^verbatim>\<open>__init__\<close>, lines 103-136 (\<^verbatim>\<open>EnhancedNetworkTester.__init__\<close> adds only the
  user interface object). The arguments are in the order of the source. After the
  validation come \<^verbatim>\<open>_setup_logging\<close>, which opens the log file,
  \<^verbatim>\<open>_setup_sockets\<close> and \<^verbatim>\<open>_check_target_availability\<close>.
\<close>

definition init ::
  "env \<Rightarrow> string \<Rightarrow> int \<Rightarrow> int \<Rightarrow> int \<Rightarrow> int \<Rightarrow> int \<Rightarrow> bool \<Rightarrow> world
     \<Rightarrow> (py_error + tester) \<times> world" where
  "init e target_ip target_port dur thread_cnt packet_sz buffer_sz verb w =
     (case validate_input target_ip target_port dur of
        Inl err \<Rightarrow> (Inl err, w)
      | Inr _ \<Rightarrow>
          (if log_file_ok e
           then
             (case setup_sockets e buffer_sz (nat (min thread_cnt 500)) w of
                (Inl err, w') \<Rightarrow> (Inl err, w')
              | (Inr hs, w') \<Rightarrow>
                  (Inr \<lparr>target = (target_ip, target_port),
                        duration = dur,
                        thread_count = min thread_cnt 500,
                        packet_size = min packet_sz 65507,
                        buffer_size = buffer_sz,
                        verbose = verb,
                        stats = new_stats (t_init e),
                        stop_event = False,
                        sockets = hs\<rparr>,
                   check_target_availability e w'))
           else (Inl OSError, w)))"

subsection \<open>\<^verbatim>\<open>_generate_packet\<close> (lines 195-201)\<close>

text \<open>
  \<^verbatim>\<open>random._urandom\<close> is \<^verbatim>\<open>os.urandom\<close>: it raises \<open>ValueError\<close> for a negative
  argument and returns that many bytes otherwise.
\<close>

definition urandom :: "(nat \<Rightarrow> 8 word) \<Rightarrow> int \<Rightarrow> py_error + 8 word list" where
  "urandom src n = (if n < 0 then Inl ValueError else Inr (map src [0..<nat n]))"

definition generate_packet ::
  "int \<Rightarrow> (nat \<Rightarrow> 8 word) \<Rightarrow> (nat \<Rightarrow> 8 word) \<Rightarrow> py_error + 8 word list" where
  "generate_packet packet_sz rnd src =
     (let header = map rnd [0..<24]
      in case urandom src (packet_sz - 24) of
           Inl err \<Rightarrow> Inl err
         | Inr payload \<Rightarrow> Inr (header @ payload))"

subsection \<open>\<^verbatim>\<open>_send_packets\<close>: the steps of a worker (lines 203-232)\<close>

text \<open>
  The workers of the thread pool share the tester object and the world. A worker is
  a small program counter machine over lines 207-232; one step is one access to what
  is shared. An augmented assignment \<^verbatim>\<open>self.stats.packets_sent += 1\<close> reads the
  attribute, adds, and writes the attribute: a read step that keeps the value in the
  worker's \<open>reg\<close>, and a write step. \<^verbatim>\<open>with threading.Lock():\<close> creates a lock object
  that no other thread can refer to and acquires it (\<open>Ok_enter\<close>, \<open>Fail_enter\<close>), and
  releases it at the end of the block (\<open>Ok_exit\<close>, \<open>Fail_exit\<close>). The rate limiting of
  lines 222-225 (\<open>Throttle\<close>) and line 232 only sleep.
\<close>

datatype pc =
    Loop
  | Ok_enter | Ok_ld_sent | Ok_st_sent | Ok_ld_bytes | Ok_st_bytes
  | Ok_app_rt | Ok_app_sz | Ok_exit | Throttle
  | Fail_enter | Fail_ld | Fail_st | Fail_exit | Fail_log
  | Done

record worker =
  pc :: pc
  iter :: nat
  pkt_len :: int
  resp :: real
  err :: py_error
  lock :: nat
  reg :: int

text \<open>
  \<open>iter\<close> counts the iterations the worker has begun; \<open>pkt_len\<close>, \<open>resp\<close> and \<open>err\<close>
  are the locals \<^verbatim>\<open>len(packet)\<close>, \<^verbatim>\<open>response_time\<close> and \<^verbatim>\<open>e\<close>; \<open>lock\<close> is the lock
  object of the block the worker is in.
\<close>

definition new_worker :: worker where
  "new_worker =
     \<lparr>pc = Loop, iter = 0, pkt_len = 0, resp = 0, err = ValueError, lock = 0, reg = 0\<rparr>"

text \<open>
  Lines 209-214, the body of the \<^verbatim>\<open>try\<close> up to the return of \<^verbatim>\<open>sendto\<close>, for
  worker \<open>i\<close> in its iteration \<open>k\<close>: the exception raised by \<^verbatim>\<open>_generate_packet\<close> or
  by \<^verbatim>\<open>sendto\<close>, or \<^verbatim>\<open>len(packet)\<close> and \<^verbatim>\<open>response_time\<close>. Every exception there
  is a subclass of \<^verbatim>\<open>Exception\<close>, so the handler of line 227 catches it.
\<close>

definition attempt :: "env \<Rightarrow> nat \<Rightarrow> nat \<Rightarrow> tester \<Rightarrow> py_error + int \<times> real" where
  "attempt e i k t =
     (case generate_packet (packet_size t) (header_bytes e i k) (payload_bytes e i k) of
        Inl er \<Rightarrow> Inl er
      | Inr packet \<Rightarrow>
          (case transport e i k of
             Raised er \<Rightarrow> Inl er
           | Sent rt \<Rightarrow> Inr (int (length packet), rt)))"

definition map_stats :: "(NetworkStats \<Rightarrow> NetworkStats) \<Rightarrow> tester \<Rightarrow> tester" where
  "map_stats f t = t\<lparr>stats := f (stats t)\<rparr>"

text \<open>
  The step of worker number \<open>i\<close>, whose own state is \<open>x\<close>, on the shared tester and
  world.
\<close>

definition worker_step ::
  "env \<Rightarrow> nat \<Rightarrow> worker \<Rightarrow> tester \<Rightarrow> world \<Rightarrow> worker \<times> tester \<times> world" where
  "worker_step e i x t w =
     (case pc x of
        Loop \<Rightarrow>
          (if stop_event t then (x\<lparr>pc := Done\<rparr>, t, w)
           else
             (case attempt e i (iter x) t of
                Inl er \<Rightarrow> (x\<lparr>pc := Fail_enter, iter := Suc (iter x), err := er\<rparr>, t, w)
              | Inr (n, rt) \<Rightarrow>
                  (x\<lparr>pc := Ok_enter, iter := Suc (iter x), pkt_len := n, resp := rt\<rparr>, t,
                   w\<lparr>wire := wire w @ [(i, nat n)]\<rparr>)))
      | Ok_enter \<Rightarrow>
          (x\<lparr>pc := Ok_ld_sent, lock := length (locks w)\<rparr>, t, w\<lparr>locks := locks w @ [True]\<rparr>)
      | Ok_ld_sent \<Rightarrow> (x\<lparr>pc := Ok_st_sent, reg := packets_sent (stats t)\<rparr>, t, w)
      | Ok_st_sent \<Rightarrow>
          (x\<lparr>pc := Ok_ld_bytes\<rparr>, map_stats (\<lambda>s. s\<lparr>packets_sent := reg x + 1\<rparr>) t, w)
      | Ok_ld_bytes \<Rightarrow> (x\<lparr>pc := Ok_st_bytes, reg := bytes_sent (stats t)\<rparr>, t, w)
      | Ok_st_bytes \<Rightarrow>
          (x\<lparr>pc := Ok_app_rt\<rparr>, map_stats (\<lambda>s. s\<lparr>bytes_sent := reg x + pkt_len x\<rparr>) t, w)
      | Ok_app_rt \<Rightarrow>
          (x\<lparr>pc := Ok_app_sz\<rparr>,
           map_stats (\<lambda>s. s\<lparr>response_times := response_times s @ [resp x]\<rparr>) t, w)
      | Ok_app_sz \<Rightarrow>
          (x\<lparr>pc := Ok_exit\<rparr>,
           map_stats (\<lambda>s. s\<lparr>packet_sizes := packet_sizes s @ [pkt_len x]\<rparr>) t, w)
      | Ok_exit \<Rightarrow> (x\<lparr>pc := Throttle\<rparr>, t, w\<lparr>locks := (locks w)[lock x := False]\<rparr>)
      | Throttle \<Rightarrow> (x\<lparr>pc := Loop\<rparr>, t, w)
      | Fail_enter \<Rightarrow>
          (x\<lparr>pc := Fail_ld, lock := length (locks w)\<rparr>, t, w\<lparr>locks := locks w @ [True]\<rparr>)
      | Fail_ld \<Rightarrow> (x\<lparr>pc := Fail_st, reg := failed_attempts (stats t)\<rparr>, t, w)
      | Fail_st \<Rightarrow>
          (x\<lparr>pc := Fail_exit\<rparr>, map_stats (\<lambda>s. s\<lparr>failed_attempts := reg x + 1\<rparr>) t, w)
      | Fail_exit \<Rightarrow> (x\<lparr>pc := Fail_log\<rparr>, t, w\<lparr>locks := (locks w)[lock x := False]\<rparr>)
      | Fail_log \<Rightarrow>
          (x\<lparr>pc := Loop\<rparr>, t,
           if verbose t then w\<lparr>logged := logged w @ [Error_thread i (err x)]\<rparr> else w)
      | Done \<Rightarrow> (x, t, w))"

subsection \<open>The workers together\<close>

record sys =
  tst :: tester
  wld :: world
  thr :: "worker list"

text \<open>A step of worker number \<open>i\<close> of the pool; an index that names no worker does nothing.\<close>

definition step :: "env \<Rightarrow> nat \<Rightarrow> sys \<Rightarrow> sys" where
  "step e i c =
     (if i < length (thr c)
      then (case worker_step e i (thr c ! i) (tst c) (wld c) of
              (x', t', w') \<Rightarrow> \<lparr>tst = t', wld = w', thr = (thr c)[i := x']\<rparr>)
      else c)"

fun run :: "env \<Rightarrow> nat list \<Rightarrow> sys \<Rightarrow> sys" where
  "run e [] c = c"
| "run e (i # js) c = run e js (step e i c)"

definition all_done :: "sys \<Rightarrow> bool" where
  "all_done c = list_all (\<lambda>x. pc x = Done) (thr c)"

text \<open>The pool as \<^verbatim>\<open>start\<close> makes it: \<^verbatim>\<open>self.thread_count\<close> workers at the head of their loops.\<close>

definition workers_start :: "tester \<Rightarrow> world \<Rightarrow> sys" where
  "workers_start t w = \<lparr>tst = t, wld = w, thr = replicate (nat (thread_count t)) new_worker\<rparr>"

subsection \<open>A worker that no other thread interrupts\<close>

text \<open>
  \<open>alone n\<close> lets the worker take its steps, at most \<open>n\<close> of them, until it is back at
  the head of its loop or has ended. \<open>iteration\<close> is one pass through the body of the
  \<^verbatim>\<open>while\<close> loop made that way, by worker \<open>i\<close> in its iteration \<open>k\<close>; the longest pass
  has ten steps. It is what the pool does when it has one worker, or when the
  scheduler lets a worker finish its pass (lemmas \<open>solo_success\<close>, \<open>solo_failure\<close>).
\<close>

fun alone :: "nat \<Rightarrow> env \<Rightarrow> nat \<Rightarrow> worker \<times> tester \<times> world \<Rightarrow> worker \<times> tester \<times> world" where
  "alone 0 e i s = s"
| "alone (Suc n) e i (x, t, w) =
     (case worker_step e i x t w of
        (x', t', w') \<Rightarrow>
          if pc x' = Loop \<or> pc x' = Done then (x', t', w') else alone n e i (x', t', w'))"

definition iteration :: "env \<Rightarrow> nat \<Rightarrow> nat \<Rightarrow> tester \<times> world \<Rightarrow> tester \<times> world" where
  "iteration e i k = (\<lambda>(t, w). snd (alone 10 e i (new_worker\<lparr>iter := k\<rparr>, t, w)))"

text \<open>
  What such a pass does to the statistics: lines 216-219 after a send that returned,
  line 229 after an exception (lemmas \<open>iteration_success\<close>, \<open>iteration_failure\<close>).
\<close>

definition success_block :: "int \<Rightarrow> real \<Rightarrow> NetworkStats \<Rightarrow> NetworkStats" where
  "success_block n rt s =
     s\<lparr>packets_sent := packets_sent s + 1,
       bytes_sent := bytes_sent s + n,
       response_times := response_times s @ [rt],
       packet_sizes := packet_sizes s @ [n]\<rparr>"

definition failure_block :: "NetworkStats \<Rightarrow> NetworkStats" where
  "failure_block s = s\<lparr>failed_attempts := failed_attempts s + 1\<rparr>"

text \<open>
  The loop \<^verbatim>\<open>while not self.stop_event.is_set()\<close> of such a worker, from its
  iteration \<open>k\<close> on. Nothing in the loop sets the event: it is set from the main
  thread, so the number \<open>n\<close> of passes is a parameter.
\<close>

fun send_packets :: "env \<Rightarrow> nat \<Rightarrow> nat \<Rightarrow> nat \<Rightarrow> tester \<times> world \<Rightarrow> tester \<times> world" where
  "send_packets e i k 0 s = s"
| "send_packets e i k (Suc n) s = send_packets e i (Suc k) n (iteration e i k s)"

subsection \<open>The final report and the clean-up (lines 266-300)\<close>

text \<open>
  Lines 270-286. Python's \<^verbatim>\<open>/\<close> raises \<open>ZeroDivisionError\<close> for a zero divisor, for
  floats as for integers; the divisions are evaluated in the order of the source.
\<close>

definition final_metrics :: "real \<Rightarrow> NetworkStats \<Rightarrow> py_error + report" where
  "final_metrics now s =
     (let total = now - start_time s
      in if total = 0 then Inl ZeroDivisionError
         else
           let packets_per_second = real_of_int (packets_sent s) / total;
               mb_sent = real_of_int (bytes_sent s) / 1024 / 1024
           in if packets_sent s = 0 then Inl ZeroDivisionError
              else Inr \<lparr>total_time = total,
                        total_packets = packets_sent s,
                        total_data_mb = mb_sent,
                        packet_rate = packets_per_second,
                        failed = failed_attempts s,
                        success_pct =
                          (1 - real_of_int (failed_attempts s) / real_of_int (packets_sent s)) * 100,
                        avg_response_ms = average_response s * 1000\<rparr>)"

definition display_final_report :: "real \<Rightarrow> tester \<Rightarrow> world \<Rightarrow> (py_error + unit) \<times> world" where
  "display_final_report now t w =
     (let w1 = w\<lparr>console := console w @ [Report_header]\<rparr>
      in case final_metrics now (stats t) of
           Inl er \<Rightarrow> (Inl er, w1)
         | Inr r \<Rightarrow> (Inr (), w1\<lparr>console := console w1 @ [Final_report r]\<rparr>))"

definition cleanup :: "tester \<Rightarrow> world \<Rightarrow> world" where
  "cleanup t w =
     (let w1 = foldl (\<lambda>v h. close_socket h v) w (sockets t)
      in w1\<lparr>logged := logged w1 @ [Info_cleaned_up]\<rparr>)"

subsection \<open>\<^verbatim>\<open>start\<close> and \<^verbatim>\<open>main\<close> (lines 234-264 and 398-426)\<close>

text \<open>
  \<^verbatim>\<open>start\<close>: the monitor thread is started, then the workers; they run while the
  main thread sleeps; then the event is set, the workers and the monitor thread are
  joined, the report is made and the sockets are closed. \<^verbatim>\<open>ThreadPoolExecutor\<close>
  refuses \<^verbatim>\<open>max_workers <= 0\<close> with \<open>ValueError\<close>, after the monitor thread has been
  started.

  There is no \<^verbatim>\<open>try\<close> in \<^verbatim>\<open>start\<close>. A \<^verbatim>\<open>KeyboardInterrupt\<close> during the sleep of
  line 254 skips line 255, so the event is not set, and leaves the \<^verbatim>\<open>with\<close> block
  through the exit of the executor, which waits for the workers
  (\<^verbatim>\<open>shutdown(wait=True)\<close>) before it lets the exception go on.

  The result is \<open>None\<close> when a worker has not ended after the steps of \<open>sched_drain\<close>:
  the wait for the workers has not returned.
\<close>

definition start ::
  "env \<Rightarrow> tester \<Rightarrow> world \<Rightarrow> ((raised + unit) \<times> tester \<times> world) option" where
  "start e t w =
     (let w0 = w\<lparr>console := console w @ [Cleared, Banner], monitor_running := True\<rparr>
      in if thread_count t \<le> 0 then Some (Inl (Exc ValueError), t, w0)
         else
           let c1 = run e (sched_run e) (workers_start t w0)
           in if interrupt e
              then
                (let c2 = run e (sched_drain e) c1
                 in if all_done c2 then Some (Inl KeyboardInterrupt, tst c2, wld c2) else None)
              else
                (let c2 = run e (sched_drain e) (c1\<lparr>tst := (tst c1)\<lparr>stop_event := True\<rparr>\<rparr>)
                 in if all_done c2
                    then
                      (case display_final_report (t_report e) (tst c2)
                              ((wld c2)\<lparr>monitor_running := False\<rparr>) of
                         (Inl er, w3) \<Rightarrow> Some (Inl (Exc er), tst c2, w3)
                       | (Inr _, w3) \<Rightarrow> Some (Inr (), tst c2, cleanup (tst c2) w3))
                    else None))"

record args =
  arg_ip :: string
  arg_port :: int
  arg_duration :: int
  arg_threads :: int
  arg_packet_size :: int
  arg_verbose :: bool

datatype exit = Returned | SysExit int

text \<open>
  \<^verbatim>\<open>main\<close>, after \<^verbatim>\<open>parse_arguments\<close>: \<^verbatim>\<open>except KeyboardInterrupt\<close> prints and calls
  \<^verbatim>\<open>sys.exit(0)\<close>, \<^verbatim>\<open>except Exception\<close> prints the error and calls \<^verbatim>\<open>sys.exit(1)\<close>.
  What the interpreter does after \<^verbatim>\<open>main\<close> is not part of the model; it waits for
  every thread that is not a daemon, so for the monitor thread while
  \<open>monitor_running\<close>.
\<close>

definition main :: "env \<Rightarrow> args \<Rightarrow> world \<Rightarrow> (exit \<times> tester option \<times> world) option" where
  "main e a w =
     (let w0 = w\<lparr>console := console w @ [Banner]\<rparr>
      in case init e (arg_ip a) (arg_port a) (arg_duration a) (arg_threads a)
                (arg_packet_size a) 65507 (arg_verbose a) w0 of
           (Inl er, w1) \<Rightarrow>
             Some (SysExit 1, None, w1\<lparr>console := console w1 @ [Fatal_msg er]\<rparr>)
         | (Inr t, w1) \<Rightarrow>
             (case start e t w1 of
                None \<Rightarrow> None
              | Some (Inl KeyboardInterrupt, t', w2) \<Rightarrow>
                  Some (SysExit 0, Some t', w2\<lparr>console := console w2 @ [Interrupted_msg]\<rparr>)
              | Some (Inl (Exc er), t', w2) \<Rightarrow>
                  Some (SysExit 1, Some t', w2\<lparr>console := console w2 @ [Fatal_msg er]\<rparr>)
              | Some (Inr _, t', w2) \<Rightarrow> Some (Returned, Some t', w2)))"

subsection \<open>Concrete surroundings for the examples\<close>

text \<open>
  A world in which nothing has happened yet, and surroundings in which the log file
  can be opened, the operating system grants 16 sockets and accepts every buffer
  size, the probe connects, every
  \<^verbatim>\<open>sendto\<close> returns after one millisecond and no worker is scheduled; the examples
  below change single fields.
\<close>

definition world0 :: world where
  "world0 =
     \<lparr>sock_table = [], locks = [], wire = [], logged = [], console = [],
      monitor_running = False\<rparr>"

definition env0 :: env where
  "env0 =
     \<lparr>log_file_ok = True, fd_limit = 16, sockbuf_ok = (\<lambda>v. True), reachable = True,
      t_init = 0, t_report = 2,
      header_bytes = (\<lambda>i k j. 0), payload_bytes = (\<lambda>i k j. 0),
      transport = (\<lambda>i k. Sent (1 / 1000)),
      sched_run = [], interrupt = False, sched_drain = []\<rparr>"

text \<open>
  The tester and the world that \<open>init\<close> makes there for two workers and packets of
  1024 bytes (lemma \<open>init_example\<close>).
\<close>

definition tester0 :: tester where
  "tester0 =
     \<lparr>target = (''10.0.0.1'', 80), duration = 5, thread_count = 2, packet_size = 1024,
      buffer_size = 65507, verbose = False, stats = new_stats 0, stop_event = False,
      sockets = [0, 1]\<rparr>"

definition world1 :: world where
  "world1 = world0\<lparr>sock_table := [True, True, False]\<rparr>"

text \<open>
  An interleaving of two workers that each send one datagram: both read
  \<open>packets_sent\<close> before either writes it back.
\<close>

definition sched_both_read_first :: "nat list" where
  "sched_both_read_first = [0, 0, 0, 1, 1, 1, 0, 0, 0, 0, 0, 0, 0, 1, 1, 1, 1, 1, 1, 1]"

definition pool0 :: sys where
  "pool0 = \<lparr>tst = tester0, wld = world1, thr = [new_worker, new_worker]\<rparr>"

text \<open>
  Command lines and surroundings of three whole runs of \<open>main\<close> with two workers:
  the interleaving above; every \<^verbatim>\<open>sendto\<close> raising, each worker making one
  iteration; and a \<^verbatim>\<open>KeyboardInterrupt\<close> during the sleep of \<^verbatim>\<open>start\<close>, the workers
  taking the steps \<open>js\<close> before it and the steps \<open>ks\<close> after it.
\<close>

definition args0 :: args where
  "args0 =
     \<lparr>arg_ip = ''10.0.0.1'', arg_port = 80, arg_duration = 5, arg_threads = 2,
      arg_packet_size = 1024, arg_verbose = False\<rparr>"

definition env_both_read_first :: env where
  "env_both_read_first = env0\<lparr>sched_run := sched_both_read_first, sched_drain := [0, 1]\<rparr>"

definition env_all_fail :: env where
  "env_all_fail =
     env0\<lparr>transport := (\<lambda>i k. Raised OSError),
          sched_run := [0, 0, 0, 0, 0, 0, 1, 1, 1, 1, 1, 1], sched_drain := [0, 1]\<rparr>"

definition env_interrupt :: "nat list \<Rightarrow> nat list \<Rightarrow> env" where
  "env_interrupt js ks = env0\<lparr>sched_run := js, interrupt := True, sched_drain := ks\<rparr>"

text \<open>The world of that run when \<^verbatim>\<open>start\<close> has started the monitor thread and the workers.\<close>

definition world_started :: world where
  "world_started = world1\<lparr>console := [Banner, Cleared, Banner], monitor_running := True\<rparr>"

text \<open>
  Two workers whose every \<^verbatim>\<open>sendto\<close> raises, with \<^verbatim>\<open>verbose\<close> set, under an
  interleaving in which both read \<open>failed_attempts\<close> before either writes it back.
\<close>

definition pool_verbose :: sys where
  "pool_verbose =
     \<lparr>tst = tester0\<lparr>verbose := True\<rparr>, wld = world1, thr = [new_worker, new_worker]\<rparr>"

definition sched_both_fail :: "nat list" where
  "sched_both_fail = [0, 0, 0, 1, 1, 1, 0, 0, 0, 1, 1, 1]"



subsection \<open>Predicates used in the proofs\<close>

text \<open>The places of the worker's program outside the success branch.\<close>

definition fail_side :: "worker \<Rightarrow> bool" where
  "fail_side x =
     (case pc x of
        Loop \<Rightarrow> True | Fail_enter \<Rightarrow> True | Fail_ld \<Rightarrow> True | Fail_st \<Rightarrow> True
      | Fail_exit \<Rightarrow> True | Fail_log \<Rightarrow> True | Done \<Rightarrow> True | _ \<Rightarrow> False)"

section \<open>Derived metrics\<close>

lemma success_rate_zero_iff:
  assumes "0 \<le> packets_sent s" and "0 \<le> failed_attempts s"
  shows "success_rate s = 0 \<longleftrightarrow> packets_sent s = 0"
  using assms by (auto simp: success_rate_def Let_def)

lemma success_rate_bounds:
  assumes "0 \<le> packets_sent s" and "0 \<le> failed_attempts s"
  shows "0 \<le> success_rate s \<and> success_rate s \<le> 100"
proof (cases "packets_sent s + failed_attempts s > 0")
  case True
  define q where "q = real_of_int (packets_sent s) / real_of_int (packets_sent s + failed_attempts s)"
  have "q \<le> 1"
    unfolding q_def using True assms by (simp add: divide_le_eq_1)
  moreover have "0 \<le> q"
    unfolding q_def using True assms by simp
  moreover have "success_rate s = q * 100"
    unfolding q_def using True by (simp only: success_rate_def Let_def if_True)
  ultimately show ?thesis by simp
next
  case False
  then show ?thesis by (simp add: success_rate_def Let_def)
qed

text \<open>
  Claim C6 fails as stated: after two failed attempts and no success
  \<open>packets_sent + failed_attempts\<close> is 2, and \<open>success_rate\<close> is 0 all the same.
\<close>

theorem success_rate_zero_after_failures:
  "success_rate (new_stats 0\<lparr>failed_attempts := 2\<rparr>) = 0
 \<and> packets_sent (new_stats 0\<lparr>failed_attempts := 2\<rparr>)
     + failed_attempts (new_stats 0\<lparr>failed_attempts := 2\<rparr>) = 2"
  by (simp add: success_rate_def new_stats_def)

text \<open>
  Claim C6, as the code has it. With non-negative counters (they start at 0 and are
  only ever incremented), \<open>success_rate\<close> is 0 exactly when \<open>packets_sent\<close> is 0: when
  \<open>packets_sent + failed_attempts = 0\<close>, and also when every attempt so far has failed.
  It is \<open>packets_sent / (packets_sent + failed_attempts) * 100\<close> whenever the sum is not
  0. \<open>average_response\<close> is 0 for an empty sample sequence and the arithmetic mean of
  the samples otherwise. Both are functions of the counters and the samples only: the
  record stores neither, so any other statistics record with the same counters (the
  same samples) gives the same value.
\<close>

theorem derived_metrics_on_demand:
  assumes "0 \<le> packets_sent s" and "0 \<le> failed_attempts s"
  shows "(success_rate s = 0 \<longleftrightarrow> packets_sent s = 0)
       \<and> success_rate s =
           (if packets_sent s + failed_attempts s = 0 then 0
            else real_of_int (packets_sent s)
                   / real_of_int (packets_sent s + failed_attempts s) * 100)
       \<and> average_response s =
           (if response_times s = [] then 0
            else sum_list (response_times s) / real (length (response_times s)))
       \<and> (\<forall>s'. packets_sent s' = packets_sent s \<and> failed_attempts s' = failed_attempts s
              \<longrightarrow> success_rate s' = success_rate s)
       \<and> (\<forall>s'. response_times s' = response_times s
              \<longrightarrow> average_response s' = average_response s)"
proof -
  have total: "packets_sent s + failed_attempts s > 0 \<longleftrightarrow> packets_sent s + failed_attempts s \<noteq> 0"
    using assms by arith
  have "success_rate s = 0 \<longleftrightarrow> packets_sent s = 0"
    using assms by (rule success_rate_zero_iff)
  moreover have "success_rate s =
           (if packets_sent s + failed_attempts s = 0 then 0
            else real_of_int (packets_sent s)
                   / real_of_int (packets_sent s + failed_attempts s) * 100)"
    unfolding success_rate_def Let_def total by simp
  moreover have "average_response s =
           (if response_times s = [] then 0
            else sum_list (response_times s) / real (length (response_times s)))"
    unfolding average_response_def mean_def by simp
  moreover have "\<forall>s'. packets_sent s' = packets_sent s \<and> failed_attempts s' = failed_attempts s
              \<longrightarrow> success_rate s' = success_rate s"
    by (intro allI impI, elim conjE) (simp only: success_rate_def)
  moreover have "\<forall>s'. response_times s' = response_times s
              \<longrightarrow> average_response s' = average_response s"
    by (intro allI impI) (simp only: average_response_def)
  ultimately show ?thesis by blast
qed

theorem derived_metrics_on_demand_witness:
  "success_rate (new_stats 0\<lparr>packets_sent := 3, failed_attempts := 1, response_times := [1, 2, 6]\<rparr>) = 75
   \<and> average_response (new_stats 0\<lparr>packets_sent := 3, failed_attempts := 1, response_times := [1, 2, 6]\<rparr>) = 3
   \<and> success_rate (new_stats 5\<lparr>packets_sent := 3, failed_attempts := 1\<rparr>) = 75
   \<and> average_response (new_stats 5\<lparr>response_times := [1, 2, 6]\<rparr>) = 3
   \<and> success_rate (new_stats 0\<lparr>failed_attempts := 2\<rparr>) = 0
   \<and> success_rate (new_stats 0) = 0"
proof -
  let ?s = "new_stats 0\<lparr>packets_sent := 3, failed_attempts := 1, response_times := [1, 2, 6]\<rparr>"
  have nonneg: "0 \<le> packets_sent ?s" "0 \<le> failed_attempts ?s"
    by (simp_all add: new_stats_def)
  note m = derived_metrics_on_demand [OF nonneg, THEN conjunct2]
  have rate: "success_rate ?s = 75"
    using m [THEN conjunct1] by (simp add: new_stats_def)
  have avg: "average_response ?s = 3"
    using m [THEN conjunct2, THEN conjunct1] by (simp add: new_stats_def)
  have "success_rate (new_stats 5\<lparr>packets_sent := 3, failed_attempts := 1\<rparr>) = success_rate ?s"
    using m [THEN conjunct2, THEN conjunct2, THEN conjunct1,
             THEN spec, of "new_stats 5\<lparr>packets_sent := 3, failed_attempts := 1\<rparr>"]
    by (simp add: new_stats_def)
  moreover have "average_response (new_stats 5\<lparr>response_times := [1, 2, 6]\<rparr>) = average_response ?s"
    using m [THEN conjunct2, THEN conjunct2, THEN conjunct2,
             THEN spec, of "new_stats 5\<lparr>response_times := [1, 2, 6]\<rparr>"]
    by (simp add: new_stats_def)
  moreover have "success_rate (new_stats 0\<lparr>failed_attempts := 2\<rparr>) = 0"
    using derived_metrics_on_demand [of "new_stats 0\<lparr>failed_attempts := 2\<rparr>", THEN conjunct1]
    by (simp add: new_stats_def)
  moreover have "success_rate (new_stats 0) = 0"
    using derived_metrics_on_demand [of "new_stats 0", THEN conjunct1]
    by (simp add: new_stats_def)
  ultimately show ?thesis using rate avg by simp
qed

section \<open>Construction\<close>

lemma validate_input_ok:
  "validate_input ip port dur = Inr () \<longleftrightarrow> ip \<noteq> [] \<and> 0 \<le> port \<and> port \<le> 65535 \<and> 0 < dur"
  by (auto simp: validate_input_def)

lemma validate_input_error:
  "validate_input ip port dur = Inl er \<Longrightarrow> er = ValueError"
  by (simp add: validate_input_def split: if_splits)

lemma setsockopt_ok:
  "setsockopt e v = Inr () \<longleftrightarrow> - 2147483648 \<le> v \<and> v \<le> 2147483647 \<and> sockbuf_ok e v"
  by (auto simp: setsockopt_def)

lemma setup_sockets_error:
  "setup_sockets e bs n w = (Inl er, w') \<Longrightarrow> er \<noteq> ValueError"
proof (induction n arbitrary: w w')
  case 0
  then show ?case by simp
next
  case (Suc n)
  from Suc.prems Suc.IH show ?case
    by (auto simp: new_socket_def setsockopt_def split: if_splits prod.splits sum.splits)
qed

lemma setup_sockets_granted:
  "setsockopt e bs = Inr () \<Longrightarrow> length (sock_table w) + n \<le> fd_limit e \<Longrightarrow>
   setup_sockets e bs n w =
     (Inr [length (sock_table w)..<length (sock_table w) + n],
      w\<lparr>sock_table := sock_table w @ replicate n True\<rparr>)"
proof (induction n arbitrary: w)
  case 0
  then show ?case by simp
next
  case (Suc n)
  let ?w = "w\<lparr>sock_table := sock_table w @ [True]\<rparr>"
  have new: "new_socket e w = (Inr (length (sock_table w)), ?w)"
    using Suc.prems by (simp add: new_socket_def)
  have "length (sock_table ?w) + n \<le> fd_limit e"
    using Suc.prems by simp
  from Suc.IH [OF Suc.prems(1) this]
  have rest: "setup_sockets e bs n ?w =
      (Inr [Suc (length (sock_table w))..<Suc (length (sock_table w)) + n],
       w\<lparr>sock_table := sock_table w @ True # replicate n True\<rparr>)"
    by simp
  show ?case
    by (simp add: new rest Suc.prems(1) upt_conv_Cons del: upt_Suc)
qed

lemma setup_sockets_returned:
  "setup_sockets e bs n w = (Inr hs, w') \<Longrightarrow>
   hs = [length (sock_table w)..<length (sock_table w) + n]
     \<and> w' = w\<lparr>sock_table := sock_table w @ replicate n True\<rparr>"
proof (induction n arbitrary: w hs w')
  case 0
  then show ?case by simp
next
  case (Suc n)
  let ?w = "w\<lparr>sock_table := sock_table w @ [True]\<rparr>"
  from Suc.prems obtain hs' where
    rest: "setup_sockets e bs n ?w = (Inr hs', w')" and hs: "hs = length (sock_table w) # hs'"
    by (auto simp: new_socket_def split: if_splits prod.splits sum.splits)
  from Suc.IH [OF rest] hs show ?case
    by (simp add: upt_conv_Cons del: upt_Suc)
qed

lemma init_rejects:
  "validate_input ip port dur \<noteq> Inr () \<Longrightarrow>
   init e ip port dur tc ps bs vb w = (Inl ValueError, w)"
  by (cases "validate_input ip port dur")
     (auto simp: init_def dest: validate_input_error)

lemma init_accepts:
  assumes "validate_input ip port dur = Inr ()" and "log_file_ok e"
    and "setsockopt e bs = Inr ()"
    and "length (sock_table w) + nat (min tc 500) \<le> fd_limit e"
  shows "init e ip port dur tc ps bs vb w =
     (Inr \<lparr>target = (ip, port), duration = dur, thread_count = min tc 500,
           packet_size = min ps 65507, buffer_size = bs, verbose = vb,
           stats = new_stats (t_init e), stop_event = False,
           sockets = [length (sock_table w)..<length (sock_table w) + nat (min tc 500)]\<rparr>,
      check_target_availability e
        (w\<lparr>sock_table := sock_table w @ replicate (nat (min tc 500)) True\<rparr>))"
  by (simp add: init_def assms(1,2) setup_sockets_granted [OF assms(3,4)])

lemma init_result:
  assumes "init e ip port dur tc ps bs vb w = (Inr t, w')"
  shows "thread_count t = min tc 500" and "packet_size t = min ps 65507"
    and "stats t = new_stats (t_init e)" and "verbose t = vb" and "stop_event t = False"
    and "validate_input ip port dur = Inr ()"
  using assms
  by (auto simp: init_def split: sum.splits prod.splits if_splits)

text \<open>
  A duration of 0 or below is rejected before anything else is done: the world is
  unchanged, so no socket has been created.
\<close>

lemma init_checks_duration:
  "dur \<le> 0 \<Longrightarrow> init e ip port dur tc ps bs vb w = (Inl ValueError, w)"
  by (rule init_rejects) (simp add: validate_input_ok)

text \<open>
  Claim C4. For every valid configuration (a non-empty address, a port in
  \<open>0..65535\<close>, a positive duration) the constructor never answers \<open>ValueError\<close>,
  whatever worker count and packet size are requested; every tester it returns has
  \<open>thread_count = min requested 500\<close> and \<open>packet_size = min requested 65507\<close>; and it
  does return one whenever the log file can be opened, the buffer size fits a C
  \<^verbatim>\<open>int\<close> and is accepted by the operating system, and the sockets are granted.
\<close>

theorem clamped_never_rejected:
  assumes "ip \<noteq> []" and "0 \<le> port" and "port \<le> 65535" and "0 < dur"
  shows "fst (init e ip port dur tc ps bs vb w) \<noteq> Inl ValueError
       \<and> (\<forall>t w'. init e ip port dur tc ps bs vb w = (Inr t, w') \<longrightarrow>
             thread_count t = min tc 500 \<and> packet_size t = min ps 65507)
       \<and> (log_file_ok e \<and> - 2147483648 \<le> bs \<and> bs \<le> 2147483647 \<and> sockbuf_ok e bs
            \<and> length (sock_table w) + nat (min tc 500) \<le> fd_limit e \<longrightarrow>
             (\<exists>t w'. init e ip port dur tc ps bs vb w = (Inr t, w')))"
proof -
  have valid: "validate_input ip port dur = Inr ()"
    using assms by (simp add: validate_input_ok)
  have "fst (init e ip port dur tc ps bs vb w) \<noteq> Inl ValueError"
  proof
    assume "fst (init e ip port dur tc ps bs vb w) = Inl ValueError"
    then obtain w1 where "setup_sockets e bs (nat (min tc 500)) w = (Inl ValueError, w1)"
      by (auto simp: init_def valid split: prod.splits sum.splits if_splits)
    from setup_sockets_error [OF this] show False by simp
  qed
  moreover have "\<forall>t w'. init e ip port dur tc ps bs vb w = (Inr t, w') \<longrightarrow>
             thread_count t = min tc 500 \<and> packet_size t = min ps 65507"
    by (intro allI impI conjI) (erule init_result(1), erule init_result(2))
  moreover have "log_file_ok e \<and> - 2147483648 \<le> bs \<and> bs \<le> 2147483647 \<and> sockbuf_ok e bs
            \<and> length (sock_table w) + nat (min tc 500) \<le> fd_limit e \<longrightarrow>
             (\<exists>t w'. init e ip port dur tc ps bs vb w = (Inr t, w'))"
    using init_accepts [OF valid, of e bs w tc] by (auto simp: setsockopt_ok)
  ultimately show ?thesis by blast
qed

theorem clamped_never_rejected_witness:
  "(case fst (init (env0\<lparr>fd_limit := 600\<rparr>) ''10.0.0.1'' 80 5 1000 100000 65507 False world0) of
      Inl er \<Rightarrow> False
    | Inr t \<Rightarrow> thread_count t = 500 \<and> packet_size t = 65507)"
proof -
  let ?r = "init (env0\<lparr>fd_limit := 600\<rparr>) ''10.0.0.1'' 80 5 1000 100000 65507 False world0"
  note c = clamped_never_rejected [of "''10.0.0.1''" 80 5 "env0\<lparr>fd_limit := 600\<rparr>"
      1000 100000 65507 False world0]
  have fds: "log_file_ok (env0\<lparr>fd_limit := 600\<rparr>) \<and> - 2147483648 \<le> (65507 :: int)
      \<and> (65507 :: int) \<le> 2147483647 \<and> sockbuf_ok (env0\<lparr>fd_limit := 600\<rparr>) 65507
      \<and> length (sock_table world0) + nat (min 1000 500) \<le> fd_limit (env0\<lparr>fd_limit := 600\<rparr>)"
    by (simp add: world0_def env0_def)
  from c fds obtain t w' where r: "?r = (Inr t, w')"
    by auto
  with c have "thread_count t = 500 \<and> packet_size t = 65507"
    by auto
  with r show ?thesis by simp
qed

section \<open>The packet builder\<close>

text \<open>
  Claim C5. For every packet size of at least 24, \<open>generate_packet\<close> returns a byte
  sequence of exactly that length: a header of 24 bytes followed by a payload of
  \<open>size - 24\<close> bytes.
\<close>

theorem generate_packet_exact_size:
  assumes "24 \<le> n"
  shows "generate_packet n rnd src = Inr (map rnd [0..<24] @ map src [0..<nat (n - 24)])
       \<and> length (map rnd [0..<24]) = 24
       \<and> int (length (map src [0..<nat (n - 24)])) = n - 24
       \<and> int (length (map rnd [0..<24] @ map src [0..<nat (n - 24)])) = n"
  using assms by (simp add: generate_packet_def urandom_def)

theorem generate_packet_exact_size_witness:
  "(24 :: int) \<le> 30
 \<and> generate_packet 30 (\<lambda>j. 7) (\<lambda>j. 9) = Inr (map (\<lambda>j. 7) [0..<24] @ map (\<lambda>j. 9) [0..<nat (30 - 24)])
 \<and> int (length (map (\<lambda>j. 7 :: 8 word) [0..<24] @ map (\<lambda>j. 9 :: 8 word) [0..<nat (30 - 24)])) = 30"
  using generate_packet_exact_size [of 30 "\<lambda>j. 7" "\<lambda>j. 9"]
  by simp

section \<open>The steps of a worker\<close>

lemma attempt_small_packet:
  "packet_size t < 24 \<Longrightarrow> attempt e i k t = Inl ValueError"
  by (simp add: attempt_def generate_packet_def urandom_def)

lemma attempt_send_raises:
  "24 \<le> packet_size t \<Longrightarrow> transport e i k = Raised er \<Longrightarrow> attempt e i k t = Inl er"
  by (simp add: attempt_def generate_packet_def urandom_def)

lemma attempt_send_returns:
  "24 \<le> packet_size t \<Longrightarrow> transport e i k = Sent rt \<Longrightarrow>
   attempt e i k t = Inr (packet_size t, rt)"
  by (simp add: attempt_def generate_packet_def urandom_def)

lemma worker_step_frame:
  "sockets (fst (snd (worker_step e i x t w))) = sockets t
 \<and> thread_count (fst (snd (worker_step e i x t w))) = thread_count t
 \<and> packet_size (fst (snd (worker_step e i x t w))) = packet_size t
 \<and> verbose (fst (snd (worker_step e i x t w))) = verbose t
 \<and> stop_event (fst (snd (worker_step e i x t w))) = stop_event t
 \<and> successful_attempts (stats (fst (snd (worker_step e i x t w)))) = successful_attempts (stats t)
 \<and> start_time (stats (fst (snd (worker_step e i x t w)))) = start_time (stats t)
 \<and> sock_table (snd (snd (worker_step e i x t w))) = sock_table w
 \<and> console (snd (snd (worker_step e i x t w))) = console w
 \<and> monitor_running (snd (snd (worker_step e i x t w))) = monitor_running w"
  by (cases "pc x"; cases "attempt e i (iter x) t")
     (simp_all add: worker_step_def map_stats_def split: prod.splits)

text \<open>A worker ends only by a step taken at the head of its loop with the stop event set.\<close>

lemma done_only_when_stopped:
  "pc x \<noteq> Done \<Longrightarrow> pc (fst (worker_step e i x t w)) = Done \<Longrightarrow> pc x = Loop \<and> stop_event t"
  by (cases "pc x"; cases "attempt e i (iter x) t")
     (auto simp: worker_step_def map_stats_def split: if_splits prod.splits)

lemma step_frame:
  "sockets (tst (step e i c)) = sockets (tst c)
 \<and> thread_count (tst (step e i c)) = thread_count (tst c)
 \<and> packet_size (tst (step e i c)) = packet_size (tst c)
 \<and> verbose (tst (step e i c)) = verbose (tst c)
 \<and> stop_event (tst (step e i c)) = stop_event (tst c)
 \<and> successful_attempts (stats (tst (step e i c))) = successful_attempts (stats (tst c))
 \<and> start_time (stats (tst (step e i c))) = start_time (stats (tst c))
 \<and> sock_table (wld (step e i c)) = sock_table (wld c)
 \<and> console (wld (step e i c)) = console (wld c)
 \<and> monitor_running (wld (step e i c)) = monitor_running (wld c)
 \<and> length (thr (step e i c)) = length (thr c)"
proof (cases "i < length (thr c)")
  case False
  then show ?thesis by (simp add: step_def)
next
  case True
  obtain x' t' w' where s: "worker_step e i (thr c ! i) (tst c) (wld c) = (x', t', w')"
    by (cases "worker_step e i (thr c ! i) (tst c) (wld c)") auto
  show ?thesis
    using worker_step_frame [of e i "thr c ! i" "tst c" "wld c"] True
    by (simp add: step_def s)
qed

lemma run_append: "run e (js @ ks) c = run e ks (run e js c)"
  by (induction js arbitrary: c) simp_all

lemma run_frame:
  "sockets (tst (run e js c)) = sockets (tst c)
 \<and> thread_count (tst (run e js c)) = thread_count (tst c)
 \<and> packet_size (tst (run e js c)) = packet_size (tst c)
 \<and> verbose (tst (run e js c)) = verbose (tst c)
 \<and> stop_event (tst (run e js c)) = stop_event (tst c)
 \<and> successful_attempts (stats (tst (run e js c))) = successful_attempts (stats (tst c))
 \<and> start_time (stats (tst (run e js c))) = start_time (stats (tst c))
 \<and> sock_table (wld (run e js c)) = sock_table (wld c)
 \<and> console (wld (run e js c)) = console (wld c)
 \<and> monitor_running (wld (run e js c)) = monitor_running (wld c)
 \<and> length (thr (run e js c)) = length (thr c)"
proof (induction js arbitrary: c)
  case Nil
  show ?case by simp
next
  case (Cons j js)
  show ?case
    using Cons.IH [of "step e j c"] step_frame [of e j c] by simp
qed

text \<open>While the stop event is not set, no worker of the pool ends, whatever the interleaving.\<close>

lemma step_nobody_done:
  assumes "\<not> stop_event (tst c)" and "list_all (\<lambda>x. pc x \<noteq> Done) (thr c)"
  shows "list_all (\<lambda>x. pc x \<noteq> Done) (thr (step e i c))"
proof (cases "i < length (thr c)")
  case False
  with assms show ?thesis by (simp add: step_def)
next
  case True
  obtain x' t' w' where s: "worker_step e i (thr c ! i) (tst c) (wld c) = (x', t', w')"
    by (cases "worker_step e i (thr c ! i) (tst c) (wld c)") auto
  have "pc (thr c ! i) \<noteq> Done"
    using assms(2) True by (simp add: list_all_length)
  with done_only_when_stopped [of "thr c ! i" e i "tst c" "wld c"] assms(1) s
  have "pc x' \<noteq> Done"
    by auto
  moreover have "set ((thr c)[i := x']) \<subseteq> insert x' (set (thr c))"
    by (rule set_update_subset_insert)
  ultimately have "list_all (\<lambda>x. pc x \<noteq> Done) ((thr c)[i := x'])"
    using assms(2) by (auto simp: list_all_iff)
  then show ?thesis
    using True s by (simp add: step_def)
qed

lemma run_nobody_done:
  assumes "\<not> stop_event (tst c)" and "list_all (\<lambda>x. pc x \<noteq> Done) (thr c)"
  shows "list_all (\<lambda>x. pc x \<noteq> Done) (thr (run e js c))"
  using assms
proof (induction js arbitrary: c)
  case Nil
  then show ?case by simp
next
  case (Cons j js)
  have "\<not> stop_event (tst (step e j c))"
    using step_frame [of e j c] Cons.prems(1) by simp
  moreover have "list_all (\<lambda>x. pc x \<noteq> Done) (thr (step e j c))"
    using Cons.prems by (rule step_nobody_done)
  ultimately show ?case
    using Cons.IH by simp
qed

lemma run_never_all_done:
  assumes "\<not> stop_event (tst c)" and "list_all (\<lambda>x. pc x \<noteq> Done) (thr c)" and "thr c \<noteq> []"
  shows "\<not> all_done (run e js c)"
proof -
  have n: "list_all (\<lambda>x. pc x \<noteq> Done) (thr (run e js c))"
    using assms(1,2) by (rule run_nobody_done)
  have "length (thr (run e js c)) = length (thr c)"
    using run_frame [of e js c] by simp
  with assms(3) obtain x xs where "thr (run e js c) = x # xs"
    by (cases "thr (run e js c)") auto
  with n show ?thesis
    by (simp add: all_done_def)
qed

section \<open>A worker that no other thread interrupts\<close>

lemma iteration_failure:
  "\<not> stop_event t \<Longrightarrow> attempt e i k t = Inl er \<Longrightarrow>
   iteration e i k (t, w) =
     (t\<lparr>stats := failure_block (stats t)\<rparr>,
      w\<lparr>locks := locks w @ [False],
        logged := (if verbose t then logged w @ [Error_thread i er] else logged w)\<rparr>)"
  by (simp add: iteration_def numeral_eq_Suc worker_step_def map_stats_def new_worker_def
        failure_block_def)

lemma iteration_success:
  "\<not> stop_event t \<Longrightarrow> attempt e i k t = Inr (n, rt) \<Longrightarrow>
   iteration e i k (t, w) =
     (t\<lparr>stats := success_block n rt (stats t)\<rparr>,
      w\<lparr>wire := wire w @ [(i, nat n)], locks := locks w @ [False]\<rparr>)"
  by (simp add: iteration_def numeral_eq_Suc worker_step_def map_stats_def new_worker_def
        success_block_def)

lemma iteration_stopped:
  "stop_event t \<Longrightarrow> iteration e i k (t, w) = (t, w)"
  by (simp add: iteration_def numeral_eq_Suc worker_step_def new_worker_def)

lemma alone_successful_attempts:
  "successful_attempts (stats (fst (snd (alone n e i s)))) = successful_attempts (stats (fst (snd s)))"
proof (induction n arbitrary: s)
  case 0
  show ?case by simp
next
  case (Suc n)
  obtain x t w where s: "s = (x, t, w)"
    by (cases s) auto
  obtain x' t' w' where st: "worker_step e i x t w = (x', t', w')"
    by (cases "worker_step e i x t w") auto
  have "successful_attempts (stats t') = successful_attempts (stats t)"
    using worker_step_frame [of e i x t w] st by simp
  then show ?case
    using Suc.IH [of "(x', t', w')"] by (simp add: s st)
qed

lemma iteration_successful_attempts:
  "successful_attempts (stats (fst (iteration e i k u))) = successful_attempts (stats (fst u))"
  using alone_successful_attempts [of 10 e i "(new_worker\<lparr>iter := k\<rparr>, fst u, snd u)"]
  by (cases u) (simp add: iteration_def)

lemma send_packets_successful_attempts:
  "successful_attempts (stats (fst (send_packets e i k m u))) = successful_attempts (stats (fst u))"
proof (induction m arbitrary: k u)
  case 0
  show ?case by simp
next
  case (Suc m)
  show ?case
    by (simp add: Suc.IH iteration_successful_attempts)
qed

text \<open>
  In the pool, a worker that is scheduled for a whole pass without another worker in
  between does what \<open>iteration\<close> says: ten steps on the success branch, six on the
  failure branch.
\<close>

lemma solo_success:
  assumes "i < length (thr c)" and "pc (thr c ! i) = Loop" and "\<not> stop_event (tst c)"
    and "attempt e i (iter (thr c ! i)) (tst c) = Inr (n, rt)"
  shows "run e [i, i, i, i, i, i, i, i, i, i] c =
     \<lparr>tst = fst (iteration e i (iter (thr c ! i)) (tst c, wld c)),
      wld = snd (iteration e i (iter (thr c ! i)) (tst c, wld c)),
      thr = (thr c)[i := (thr c ! i)\<lparr>iter := Suc (iter (thr c ! i)), pkt_len := n, resp := rt,
               lock := length (locks (wld c)), reg := bytes_sent (stats (tst c)), pc := Loop\<rparr>]\<rparr>"
  using assms
  by (cases c)
     (simp add: step_def worker_step_def map_stats_def iteration_success success_block_def)

lemma solo_failure:
  assumes "i < length (thr c)" and "pc (thr c ! i) = Loop" and "\<not> stop_event (tst c)"
    and "attempt e i (iter (thr c ! i)) (tst c) = Inl er"
  shows "run e [i, i, i, i, i, i] c =
     \<lparr>tst = fst (iteration e i (iter (thr c ! i)) (tst c, wld c)),
      wld = snd (iteration e i (iter (thr c ! i)) (tst c, wld c)),
      thr = (thr c)[i := (thr c ! i)\<lparr>iter := Suc (iter (thr c ! i)), err := er,
               lock := length (locks (wld c)), reg := failed_attempts (stats (tst c)), pc := Loop\<rparr>]\<rparr>"
  using assms
  by (cases c)
     (simp add: step_def worker_step_def map_stats_def iteration_failure failure_block_def)

section \<open>The workers together\<close>

lemma attempt_tester0:
  "packet_size t = 1024 \<Longrightarrow> attempt env0 i k t = Inr (1024, 1 / 1000)"
  using attempt_send_returns [of t env0 i k "1 / 1000"] by (simp add: env0_def)

lemma attempt_all_fail:
  "packet_size t = 1024 \<Longrightarrow> attempt env_all_fail i k t = Inl OSError"
  using attempt_send_raises [of t env_all_fail i k OSError]
  by (simp add: env_all_fail_def env0_def)

lemmas run_simps =
  step_def worker_step_def map_stats_def all_done_def new_worker_def new_stats_def

lemma both_read_first_run:
  "run env0 sched_both_read_first pool0 =
     \<lparr>tst = tester0\<lparr>stats := new_stats 0
              \<lparr>packets_sent := 1, bytes_sent := 2048,
                response_times := [1 / 1000, 1 / 1000], packet_sizes := [1024, 1024]\<rparr>\<rparr>,
      wld = world1\<lparr>locks := [False, False], wire := [(0, 1024), (1, 1024)]\<rparr>,
      thr = [new_worker\<lparr>pc := Loop, iter := 1, pkt_len := 1024, resp := 1 / 1000,
                        lock := 0, reg := 0\<rparr>,
             new_worker\<lparr>pc := Loop, iter := 1, pkt_len := 1024, resp := 1 / 1000,
                        lock := 1, reg := 1024\<rparr>]\<rparr>"
  by (simp add: sched_both_read_first_def pool0_def run_simps attempt_tester0 tester0_def
        world1_def world0_def)

text \<open>
  Claim C1 fails on the code. Two workers, one iteration each, every \<^verbatim>\<open>sendto\<close>
  succeeding: under the interleaving \<open>sched_both_read_first\<close> both workers have
  finished (the event set, both at \<open>Done\<close>, each after one iteration), two datagrams
  are on the wire, no lock is held, and \<open>packets_sent + failed_attempts\<close> is 1, not
  \<open>2 * 1\<close>. The lock of line 215 is a new object in each worker, so neither waits for
  the other.
\<close>

theorem lost_update_two_workers:
  "all_done (run env0 [0, 1]
      ((run env0 sched_both_read_first pool0)
         \<lparr>tst := (tst (run env0 sched_both_read_first pool0))\<lparr>stop_event := True\<rparr>\<rparr>))
 \<and> map iter (thr (run env0 [0, 1]
      ((run env0 sched_both_read_first pool0)
         \<lparr>tst := (tst (run env0 sched_both_read_first pool0))\<lparr>stop_event := True\<rparr>\<rparr>))) = [1, 1]
 \<and> packets_sent (stats (tst (run env0 [0, 1]
      ((run env0 sched_both_read_first pool0)
         \<lparr>tst := (tst (run env0 sched_both_read_first pool0))\<lparr>stop_event := True\<rparr>\<rparr>))))
   + failed_attempts (stats (tst (run env0 [0, 1]
      ((run env0 sched_both_read_first pool0)
         \<lparr>tst := (tst (run env0 sched_both_read_first pool0))\<lparr>stop_event := True\<rparr>\<rparr>)))) = 1
 \<and> wire (wld (run env0 [0, 1]
      ((run env0 sched_both_read_first pool0)
         \<lparr>tst := (tst (run env0 sched_both_read_first pool0))\<lparr>stop_event := True\<rparr>\<rparr>)))
     = [(0, 1024), (1, 1024)]
 \<and> locks (wld (run env0 [0, 1]
      ((run env0 sched_both_read_first pool0)
         \<lparr>tst := (tst (run env0 sched_both_read_first pool0))\<lparr>stop_event := True\<rparr>\<rparr>)))
     = [False, False]"
  by (simp add: both_read_first_run run_simps tester0_def world1_def)

section \<open>Failed sends in the pool\<close>

text \<open>
  Claim C8 fails on the code, by the defect of claim C1. Two workers with \<^verbatim>\<open>verbose\<close>
  set, \<^verbatim>\<open>sendto\<close> raising \<open>OSError\<close> in both: under the interleaving \<open>sched_both_fail\<close>
  each worker makes one whole iteration through the handler of line 227 and is back
  at the head of its loop; both errors are logged, no success counter is touched and
  nothing is on the wire; and \<open>failed_attempts\<close> is 1: the increment of worker 1
  writes the value that is already there. The lock of line 228 is a new object in
  each worker, so neither waits for the other.
\<close>

theorem failed_send_not_counted:
  "run env_all_fail sched_both_fail pool_verbose =
     \<lparr>tst = tester0\<lparr>verbose := True, stats := new_stats 0\<lparr>failed_attempts := 1\<rparr>\<rparr>,
      wld = world1\<lparr>locks := [False, False],
                   logged := [Error_thread 0 OSError, Error_thread 1 OSError]\<rparr>,
      thr = [\<lparr>pc = Loop, iter = 1, pkt_len = 0, resp = 0, err = OSError, lock = 0, reg = 0\<rparr>,
             \<lparr>pc = Loop, iter = 1, pkt_len = 0, resp = 0, err = OSError, lock = 1, reg = 0\<rparr>]\<rparr>"
  by (simp add: sched_both_fail_def pool_verbose_def run_simps attempt_all_fail tester0_def
        world1_def world0_def)

section \<open>A packet size below the header length\<close>

lemma fail_side_step:
  assumes "packet_size (tst c) < 24" and "list_all fail_side (thr c)"
  shows "list_all fail_side (thr (step e i c))
       \<and> packet_size (tst (step e i c)) = packet_size (tst c)
       \<and> packets_sent (stats (tst (step e i c))) = packets_sent (stats (tst c))
       \<and> bytes_sent (stats (tst (step e i c))) = bytes_sent (stats (tst c))
       \<and> wire (wld (step e i c)) = wire (wld c)"
proof (cases "i < length (thr c)")
  case False
  with assms show ?thesis by (simp add: step_def)
next
  case True
  define x where "x = thr c ! i"
  obtain x' t' w' where s: "worker_step e i x (tst c) (wld c) = (x', t', w')"
    by (cases "worker_step e i x (tst c) (wld c)") auto
  have x: "fail_side x"
    using assms(2) True by (simp add: x_def list_all_length)
  have att: "attempt e i (iter x) (tst c) = Inl ValueError"
    using assms(1) by (rule attempt_small_packet)
  have "fail_side x' \<and> packet_size t' = packet_size (tst c)
      \<and> packets_sent (stats t') = packets_sent (stats (tst c))
      \<and> bytes_sent (stats t') = bytes_sent (stats (tst c)) \<and> wire w' = wire (wld c)"
    using x s
    by (cases "pc x") (auto simp: worker_step_def att map_stats_def fail_side_def split: if_splits)
  moreover have "set ((thr c)[i := x']) \<subseteq> insert x' (set (thr c))"
    by (rule set_update_subset_insert)
  ultimately show ?thesis
    using True s assms(2) by (auto simp: step_def x_def list_all_iff)
qed

text \<open>
  With a packet size below 24 no worker of the pool ever leaves the failure side of
  its program, \<open>packets_sent\<close> and \<open>bytes_sent\<close> stay as they are and nothing is put on
  the wire, whatever the interleaving.
\<close>

lemma fail_side_run:
  assumes "packet_size (tst c) < 24" and "list_all fail_side (thr c)"
  shows "list_all fail_side (thr (run e js c))
       \<and> packets_sent (stats (tst (run e js c))) = packets_sent (stats (tst c))
       \<and> bytes_sent (stats (tst (run e js c))) = bytes_sent (stats (tst c))
       \<and> wire (wld (run e js c)) = wire (wld c)"
  using assms
proof (induction js arbitrary: c)
  case Nil
  then show ?case by simp
next
  case (Cons j js)
  note s = fail_side_step [OF Cons.prems, of e j]
  from s have "packet_size (tst (step e j c)) < 24" and "list_all fail_side (thr (step e j c))"
    using Cons.prems(1) by simp_all
  from Cons.IH [OF this] s show ?case by simp
qed

lemma init_example:
  "init env0 ''10.0.0.1'' 80 5 2 1024 65507 False world0 = (Inr tester0, world1)"
  by (simp add: init_def validate_input_def setsockopt_def check_target_availability_def
        new_socket_def close_socket_def world0_def world1_def env0_def tester0_def
        numeral_2_eq_2)


section \<open>Sockets, report and clean-up\<close>

lemma check_target_availability_frame:
  "console (check_target_availability e w) = console w
 \<and> monitor_running (check_target_availability e w) = monitor_running w
 \<and> length (sock_table w) \<le> length (sock_table (check_target_availability e w))
 \<and> (\<forall>h<length (sock_table w).
       sock_table (check_target_availability e w) ! h = sock_table w ! h)"
  by (simp add: check_target_availability_def new_socket_def close_socket_def nth_append)

lemma init_world:
  assumes "init e ip port dur tc ps bs vb w = (Inr t, w')"
  shows "console w' = console w"
    and "\<forall>h\<in>set (sockets t). h < length (sock_table w') \<and> sock_table w' ! h"
proof -
  let ?n = "nat (min tc 500)"
  let ?w1 = "w\<lparr>sock_table := sock_table w @ replicate ?n True\<rparr>"
  from assms obtain hs w1 where
    su: "setup_sockets e bs ?n w = (Inr hs, w1)" and t: "sockets t = hs"
    and w': "w' = check_target_availability e w1"
    by (auto simp: init_def split: sum.splits prod.splits if_splits)
  from setup_sockets_returned [OF su]
  have hs: "hs = [length (sock_table w)..<length (sock_table w) + ?n]" and w1: "w1 = ?w1"
    by simp_all
  note f = check_target_availability_frame [of e ?w1]
  show "console w' = console w"
    using f by (simp add: w' w1)
  show "\<forall>h\<in>set (sockets t). h < length (sock_table w') \<and> sock_table w' ! h"
  proof
    fix h
    assume "h \<in> set (sockets t)"
    then have h: "length (sock_table w) \<le> h" "h < length (sock_table w) + ?n"
      by (simp_all add: t hs)
    then have "h < length (sock_table ?w1)" and "sock_table ?w1 ! h"
      by (simp_all add: nth_append)
    with f show "h < length (sock_table w') \<and> sock_table w' ! h"
      by (auto simp: w' w1)
  qed
qed

lemma close_all:
  "length (sock_table (foldl (\<lambda>v h. close_socket h v) w hs)) = length (sock_table w)
 \<and> (\<forall>h<length (sock_table w).
       sock_table (foldl (\<lambda>v h. close_socket h v) w hs) ! h
         = (h \<notin> set hs \<and> sock_table w ! h))
 \<and> console (foldl (\<lambda>v h. close_socket h v) w hs) = console w"
proof (induction hs arbitrary: w)
  case Nil
  show ?case by simp
next
  case (Cons a hs)
  have one: "sock_table (close_socket a w) ! h = (h \<noteq> a \<and> sock_table w ! h)"
    if "h < length (sock_table w)" for h
  proof (cases "h = a")
    case True
    with that show ?thesis by (simp add: close_socket_def)
  next
    case False
    then show ?thesis by (simp add: close_socket_def)
  qed
  have len: "length (sock_table (close_socket a w)) = length (sock_table w)"
    and con: "console (close_socket a w) = console w"
    by (simp_all add: close_socket_def)
  show ?case
    using Cons.IH [of "close_socket a w"] by (auto simp: one len con)
qed

lemma cleanup_closes:
  "console (cleanup t w) = console w
 \<and> length (sock_table (cleanup t w)) = length (sock_table w)
 \<and> (\<forall>h\<in>set (sockets t). h < length (sock_table w) \<longrightarrow> \<not> sock_table (cleanup t w) ! h)"
  using close_all [of w "sockets t"] by (simp add: cleanup_def Let_def)

lemma final_metrics_no_packets:
  "packets_sent s = 0 \<Longrightarrow> final_metrics now s = Inl ZeroDivisionError"
  by (simp add: final_metrics_def Let_def)

section \<open>\<^verbatim>\<open>start\<close> and \<^verbatim>\<open>main\<close>\<close>

text \<open>
  An interrupted \<^verbatim>\<open>start\<close> with at least one worker does not return, whatever the
  workers did before the interrupt and however long the wait for them goes on: the
  stop event is not set, so no worker ends.
\<close>

lemma start_interrupted:
  assumes "0 < thread_count t" and "interrupt e" and "\<not> stop_event t"
  shows "start e t w = None"
proof -
  let ?w0 = "w\<lparr>console := console w @ [Cleared, Banner], monitor_running := True\<rparr>"
  let ?c0 = "workers_start t ?w0"
  have a: "\<not> stop_event (tst ?c0)"
    using assms(3) by (simp add: workers_start_def)
  have b: "list_all (\<lambda>x. pc x \<noteq> Done) (thr ?c0)"
    by (simp add: workers_start_def list_all_length new_worker_def)
  have c: "thr ?c0 \<noteq> []"
    using assms(1) by (simp add: workers_start_def)
  have "\<not> all_done (run e (sched_run e @ sched_drain e) ?c0)"
    using a b c by (rule run_never_all_done)
  moreover have "run e (sched_run e @ sched_drain e) ?c0
      = run e (sched_drain e) (run e (sched_run e) ?c0)"
    by (rule run_append)
  ultimately show ?thesis
    using assms(1,2) by (simp add: start_def Let_def)
qed

lemma start_returned:
  assumes "start e t w = Some (Inr u, t', w')"
  shows "\<not> interrupt e"
    and "\<exists>r. final_metrics (t_report e) (stats t') = Inr r
           \<and> console w' = console w @ [Cleared, Banner, Report_header, Final_report r]"
    and "sockets t' = sockets t"
    and "\<forall>h\<in>set (sockets t). h < length (sock_table w) \<longrightarrow> \<not> sock_table w' ! h"
proof -
  let ?w0 = "w\<lparr>console := console w @ [Cleared, Banner], monitor_running := True\<rparr>"
  let ?c0 = "workers_start t ?w0"
  let ?c1 = "run e (sched_run e) ?c0"
  let ?c2 = "run e (sched_drain e) (?c1\<lparr>tst := (tst ?c1)\<lparr>stop_event := True\<rparr>\<rparr>)"
  let ?w2 = "(wld ?c2)\<lparr>monitor_running := False\<rparr>"
  from assms show ni: "\<not> interrupt e"
    by (auto simp: start_def Let_def split: if_splits)
  from assms ni obtain r where
    m: "final_metrics (t_report e) (stats (tst ?c2)) = Inr r"
    and t': "t' = tst ?c2"
    and w': "w' = cleanup (tst ?c2) (?w2\<lparr>console := console ?w2 @ [Report_header, Final_report r]\<rparr>)"
    by (auto simp: start_def display_final_report_def Let_def
          split: if_splits prod.splits sum.splits)
  have f1: "sockets (tst ?c1) = sockets t" "sock_table (wld ?c1) = sock_table w"
      "console (wld ?c1) = console w @ [Cleared, Banner]"
    using run_frame [of e "sched_run e" ?c0] by (simp_all add: workers_start_def)
  have f2: "sockets (tst ?c2) = sockets t" "sock_table (wld ?c2) = sock_table w"
      "console (wld ?c2) = console w @ [Cleared, Banner]"
    using run_frame [of e "sched_drain e" "?c1\<lparr>tst := (tst ?c1)\<lparr>stop_event := True\<rparr>\<rparr>"] f1
    by simp_all
  let ?w3 = "?w2\<lparr>console := console ?w2 @ [Report_header, Final_report r]\<rparr>"
  note cl = cleanup_closes [of "tst ?c2" ?w3]
  show "\<exists>r. final_metrics (t_report e) (stats t') = Inr r
           \<and> console w' = console w @ [Cleared, Banner, Report_header, Final_report r]"
    using m cl f2 by (auto simp: t' w')
  show "sockets t' = sockets t"
    by (simp add: t' f2)
  show "\<forall>h\<in>set (sockets t). h < length (sock_table w) \<longrightarrow> \<not> sock_table w' ! h"
    using cl f2 by (simp add: w')
qed

text \<open>
  The report and the closing of the sockets are on the normal path: whenever \<open>main\<close>
  returns normally, the run was not interrupted, the report made from the final
  statistics is the last line of the console and every socket of the tester is
  closed.
\<close>

lemma main_returned:
  assumes "main e a w = Some (Returned, Some t', w')"
  shows "\<not> interrupt e"
    and "\<exists>r. final_metrics (t_report e) (stats t') = Inr r
           \<and> console w' = console w @ [Banner, Cleared, Banner, Report_header, Final_report r]"
    and "\<forall>h\<in>set (sockets t'). \<not> sock_table w' ! h"
proof -
  from assms obtain t w1 u where
    i: "init e (arg_ip a) (arg_port a) (arg_duration a) (arg_threads a)
          (arg_packet_size a) 65507 (arg_verbose a) (w\<lparr>console := console w @ [Banner]\<rparr>)
        = (Inr t, w1)"
    and s: "start e t w1 = Some (Inr u, t', w')"
    by (auto simp: main_def Let_def split: option.splits prod.splits sum.splits raised.splits)
  note iw = init_world [OF i]
  note r = start_returned [OF s]
  show "\<not> interrupt e"
    by (rule r(1))
  show "\<exists>r. final_metrics (t_report e) (stats t') = Inr r
           \<and> console w' = console w @ [Banner, Cleared, Banner, Report_header, Final_report r]"
    using r(2) iw(1) by auto
  show "\<forall>h\<in>set (sockets t'). \<not> sock_table w' ! h"
    using r(3,4) iw(2) by auto
qed

lemma start_successful_attempts:
  assumes "start e t w = Some (r, t', w')"
  shows "successful_attempts (stats t') = successful_attempts (stats t)"
proof -
  let ?w0 = "w\<lparr>console := console w @ [Cleared, Banner], monitor_running := True\<rparr>"
  let ?c0 = "workers_start t ?w0"
  let ?c1 = "run e (sched_run e) ?c0"
  let ?c2 = "run e (sched_drain e) (?c1\<lparr>tst := (tst ?c1)\<lparr>stop_event := True\<rparr>\<rparr>)"
  let ?c3 = "run e (sched_drain e) ?c1"
  have c1: "successful_attempts (stats (tst ?c1)) = successful_attempts (stats t)"
    using run_frame [of e "sched_run e" ?c0] by (simp add: workers_start_def)
  have c2: "successful_attempts (stats (tst ?c2)) = successful_attempts (stats t)"
    using run_frame [of e "sched_drain e" "?c1\<lparr>tst := (tst ?c1)\<lparr>stop_event := True\<rparr>\<rparr>"] c1
    by simp
  have c3: "successful_attempts (stats (tst ?c3)) = successful_attempts (stats t)"
    using run_frame [of e "sched_drain e" ?c1] c1 by simp
  from assms have "t' = t \<or> t' = tst ?c3 \<or> t' = tst ?c2"
    by (auto simp: start_def Let_def split: if_splits prod.splits sum.splits)
  with c2 c3 show ?thesis by auto
qed

lemma main_successful_attempts:
  assumes "main e a w = Some (x, Some t', w')"
  shows "successful_attempts (stats t') = 0"
proof -
  let ?w0 = "w\<lparr>console := console w @ [Banner]\<rparr>"
  from assms obtain t w1 r w2 where
    i: "init e (arg_ip a) (arg_port a) (arg_duration a) (arg_threads a)
          (arg_packet_size a) 65507 (arg_verbose a) ?w0 = (Inr t, w1)"
    and s: "start e t w1 = Some (r, t', w2)"
    by (auto simp: main_def Let_def split: prod.splits sum.splits option.splits raised.splits)
  have "successful_attempts (stats t) = 0"
    using init_result(3) [OF i] by (simp add: new_stats_def)
  with start_successful_attempts [OF s] show ?thesis by simp
qed

section \<open>Whole runs\<close>

lemmas init_simps =
  init_def validate_input_def setsockopt_def check_target_availability_def new_socket_def
  close_socket_def numeral_2_eq_2

lemma attempt_both_read_first:
  "packet_size t = 1024 \<Longrightarrow> attempt env_both_read_first i k t = Inr (1024, 1 / 1000)"
  using attempt_send_returns [of t env_both_read_first i k "1 / 1000"]
  by (simp add: env_both_read_first_def env0_def)

lemma env_fields:
  "log_file_ok env_both_read_first" "sockbuf_ok env_both_read_first v"
  "fd_limit env_both_read_first = 16" "reachable env_both_read_first"
  "t_init env_both_read_first = 0" "t_report env_both_read_first = 2"
  "sched_run env_both_read_first = sched_both_read_first"
  "sched_drain env_both_read_first = [0, 1]" "\<not> interrupt env_both_read_first"
  "log_file_ok env_all_fail" "sockbuf_ok env_all_fail v"
  "fd_limit env_all_fail = 16" "reachable env_all_fail"
  "t_init env_all_fail = 0" "t_report env_all_fail = 2"
  "sched_run env_all_fail = [0, 0, 0, 0, 0, 0, 1, 1, 1, 1, 1, 1]"
  "sched_drain env_all_fail = [0, 1]" "\<not> interrupt env_all_fail"
  "log_file_ok (env_interrupt js ks)" "sockbuf_ok (env_interrupt js ks) v"
  "fd_limit (env_interrupt js ks) = 16" "reachable (env_interrupt js ks)"
  "t_init (env_interrupt js ks) = 0"
  "sched_run (env_interrupt js ks) = js" "sched_drain (env_interrupt js ks) = ks"
  "interrupt (env_interrupt js ks)"
  by (simp_all add: env_both_read_first_def env_all_fail_def env_interrupt_def env0_def)

lemma main_both_read_first:
  "main env_both_read_first args0 world0 =
     Some (Returned,
       Some (tester0\<lparr>stats := new_stats 0
                \<lparr>packets_sent := 1, bytes_sent := 2048,
                  response_times := [1 / 1000, 1 / 1000], packet_sizes := [1024, 1024]\<rparr>,
              stop_event := True\<rparr>),
       world0\<lparr>sock_table := [False, False, False], locks := [False, False],
              wire := [(0, 1024), (1, 1024)], logged := [Info_cleaned_up],
              console := [Banner, Cleared, Banner, Report_header,
                Final_report \<lparr>total_time = 2, total_packets = 1, total_data_mb = 1 / 512,
                  packet_rate = 1 / 2, failed = 0, success_pct = 100,
                  avg_response_ms = 1\<rparr>]\<rparr>)"
  by (simp add: main_def start_def workers_start_def args0_def world0_def tester0_def
        init_simps env_fields sched_both_read_first_def run_simps attempt_both_read_first
        display_final_report_def final_metrics_def average_response_def mean_def
        cleanup_def Let_def)

text \<open>
  Claim C2 fails on the code. Two workers, each making one iteration in which
  \<^verbatim>\<open>sendto\<close> raises: the run ends with \<open>packets_sent = 0\<close> and \<open>failed_attempts = 2\<close>,
  \<open>success_rate\<close> is 0, and the final report raises \<open>ZeroDivisionError\<close> at
  \<^verbatim>\<open>failed_attempts/packets_sent\<close>: \<open>main\<close> prints the fatal error and exits with
  status 1, no report is printed, and the two worker sockets are left open.
\<close>

theorem all_sends_fail_report_crashes:
  "main env_all_fail args0 world0 =
     Some (SysExit 1,
       Some (tester0\<lparr>stats := new_stats 0\<lparr>failed_attempts := 2\<rparr>, stop_event := True\<rparr>),
       world0\<lparr>sock_table := [True, True, False], locks := [False, False],
              console := [Banner, Cleared, Banner, Report_header,
                Fatal_msg ZeroDivisionError]\<rparr>)
 \<and> success_rate (new_stats 0\<lparr>failed_attempts := 2\<rparr>) = 0
 \<and> final_metrics 2 (new_stats 0\<lparr>failed_attempts := 2\<rparr>) = Inl ZeroDivisionError"
  by (simp add: main_def start_def workers_start_def args0_def world0_def tester0_def
        init_simps env_fields run_simps attempt_all_fail display_final_report_def
        final_metrics_def success_rate_def Let_def)

section \<open>No workers\<close>

text \<open>
  Claim C3 fails on the code for a worker count of 0. A duration of 0 is rejected by
  \<open>validate_input\<close> before anything else is done (lemma \<open>init_checks_duration\<close>), but
  the worker count is checked nowhere: the constructor returns a tester with no
  worker socket, after the probe has created and closed its own socket. The error
  comes from the thread pool in \<^verbatim>\<open>start\<close>, after the monitor thread has been
  started: \<open>main\<close> prints the fatal error and calls \<^verbatim>\<open>sys.exit(1)\<close> with that thread
  still running.
\<close>

theorem zero_workers_not_rejected:
  "init env0 ''10.0.0.1'' 80 5 0 1024 65507 False world0 =
     (Inr (tester0\<lparr>thread_count := 0, sockets := []\<rparr>), world0\<lparr>sock_table := [False]\<rparr>)
 \<and> main env0 (args0\<lparr>arg_threads := 0\<rparr>) world0 =
     Some (SysExit 1, Some (tester0\<lparr>thread_count := 0, sockets := []\<rparr>),
       world0\<lparr>sock_table := [False],
              console := [Banner, Cleared, Banner, Fatal_msg ValueError],
              monitor_running := True\<rparr>)"
  by (simp add: main_def start_def args0_def world0_def tester0_def init_simps env0_def
        Let_def)

section \<open>Interruption\<close>

lemma main_interrupted:
  assumes "init e (arg_ip a) (arg_port a) (arg_duration a) (arg_threads a)
             (arg_packet_size a) 65507 (arg_verbose a) (w\<lparr>console := console w @ [Banner]\<rparr>)
           = (Inr t, w1)"
    and "0 < thread_count t" and "interrupt e"
  shows "main e a w = None"
proof -
  have "\<not> stop_event t"
    using init_result(5) [OF assms(1)] by simp
  with assms(2,3) have "start e t w1 = None"
    by (rule start_interrupted)
  then show ?thesis
    by (simp add: main_def Let_def assms(1))
qed

text \<open>
  Claim C7 fails on the code. With a \<^verbatim>\<open>KeyboardInterrupt\<close> during the sleep of
  \<^verbatim>\<open>start\<close>, whatever steps \<open>js\<close> the two workers have taken before it and whatever
  steps \<open>ks\<close> they take after it: \<open>main\<close> has not returned, because the stop event
  was never set and not every worker has ended; the console shows neither a report
  nor the notice of the interruption; and both worker sockets are open.
\<close>

theorem interrupted_run_never_returns:
  "\<forall>js ks.
     main (env_interrupt js ks) args0 world0 = None
   \<and> \<not> all_done (run (env_interrupt js ks) (js @ ks) (workers_start tester0 world_started))
   \<and> \<not> stop_event (tst (run (env_interrupt js ks) (js @ ks) (workers_start tester0 world_started)))
   \<and> console (wld (run (env_interrupt js ks) (js @ ks) (workers_start tester0 world_started)))
       = [Banner, Cleared, Banner]
   \<and> sock_table (wld (run (env_interrupt js ks) (js @ ks) (workers_start tester0 world_started)))
       = [True, True, False]"
proof (intro allI)
  fix js ks
  let ?e = "env_interrupt js ks"
  let ?c0 = "workers_start tester0 world_started"
  have i: "init ?e (arg_ip args0) (arg_port args0) (arg_duration args0)
      (arg_threads args0) (arg_packet_size args0) 65507 (arg_verbose args0)
      (world0\<lparr>console := console world0 @ [Banner]\<rparr>)
      = (Inr tester0, world1\<lparr>console := [Banner]\<rparr>)"
    by (simp add: args0_def world0_def world1_def tester0_def init_simps env_fields)
  have m: "main ?e args0 world0 = None"
    using i by (rule main_interrupted) (simp_all add: tester0_def env_fields)
  have a: "\<not> stop_event (tst ?c0)"
    by (simp add: workers_start_def tester0_def)
  have b: "list_all (\<lambda>x. pc x \<noteq> Done) (thr ?c0)"
    by (simp add: workers_start_def list_all_length new_worker_def)
  have c: "thr ?c0 \<noteq> []"
    by (simp add: workers_start_def tester0_def)
  have nd: "\<not> all_done (run ?e (js @ ks) ?c0)"
    using a b c by (rule run_never_all_done)
  have f: "\<not> stop_event (tst (run ?e (js @ ks) ?c0))"
      "console (wld (run ?e (js @ ks) ?c0)) = [Banner, Cleared, Banner]"
      "sock_table (wld (run ?e (js @ ks) ?c0)) = [True, True, False]"
    using run_frame [of ?e "js @ ks" ?c0]
    by (simp_all add: workers_start_def tester0_def world_started_def world1_def world0_def)
  from m nd f show "main ?e args0 world0 = None
   \<and> \<not> all_done (run ?e (js @ ks) ?c0)
   \<and> \<not> stop_event (tst (run ?e (js @ ks) ?c0))
   \<and> console (wld (run ?e (js @ ks) ?c0)) = [Banner, Cleared, Banner]
   \<and> sock_table (wld (run ?e (js @ ks) ?c0)) = [True, True, False]"
    by simp
qed

section \<open>The counter that is never written\<close>

text \<open>
  Claim C9. \<open>successful_attempts\<close> is 0 in every tester the constructor returns and no
  operation changes it: not the success block (which changes \<open>packets_sent\<close>,
  \<open>bytes_sent\<close>, \<open>response_times\<close> and \<open>packet_sizes\<close> only), not the failure block
  (which changes \<open>failed_attempts\<close> only), not an iteration or the loop of a worker,
  not any interleaving of the pool; so it is 0 in the tester at the end of every run
  of \<open>main\<close>. The derived metrics do not read it: \<open>success_rate\<close> and the figures of
  the final report are the same whatever its value.
\<close>

theorem successful_attempts_stays_zero:
  "(\<forall>t w'. init e ip port dur tc ps bs vb w = (Inr t, w') \<longrightarrow> successful_attempts (stats t) = 0)
 \<and> success_block n rt s\<lparr>packets_sent := packets_sent s, bytes_sent := bytes_sent s,
        response_times := response_times s, packet_sizes := packet_sizes s\<rparr> = s
 \<and> failure_block s\<lparr>failed_attempts := failed_attempts s\<rparr> = s
 \<and> successful_attempts (stats (fst (iteration e i k u))) = successful_attempts (stats (fst u))
 \<and> successful_attempts (stats (fst (send_packets e i k m u))) = successful_attempts (stats (fst u))
 \<and> successful_attempts (stats (tst (run e js c))) = successful_attempts (stats (tst c))
 \<and> (\<forall>x t' w'. main e a w = Some (x, Some t', w') \<longrightarrow> successful_attempts (stats t') = 0)
 \<and> success_rate (s\<lparr>successful_attempts := v\<rparr>) = success_rate s
 \<and> final_metrics now (s\<lparr>successful_attempts := v\<rparr>) = final_metrics now s"
proof -
  have "\<forall>t w'. init e ip port dur tc ps bs vb w = (Inr t, w') \<longrightarrow> successful_attempts (stats t) = 0"
  proof (intro allI impI)
    fix t w'
    assume "init e ip port dur tc ps bs vb w = (Inr t, w')"
    from init_result(3) [OF this] show "successful_attempts (stats t) = 0"
      by (simp add: new_stats_def)
  qed
  moreover have "success_block n rt s\<lparr>packets_sent := packets_sent s, bytes_sent := bytes_sent s,
        response_times := response_times s, packet_sizes := packet_sizes s\<rparr> = s"
    by (simp add: success_block_def)
  moreover have "failure_block s\<lparr>failed_attempts := failed_attempts s\<rparr> = s"
    by (simp add: failure_block_def)
  moreover have "\<forall>x t' w'. main e a w = Some (x, Some t', w') \<longrightarrow> successful_attempts (stats t') = 0"
    using main_successful_attempts by blast
  moreover have "success_rate (s\<lparr>successful_attempts := v\<rparr>) = success_rate s"
    by (simp add: success_rate_def Let_def)
  moreover have "final_metrics now (s\<lparr>successful_attempts := v\<rparr>) = final_metrics now s"
    by (simp add: final_metrics_def average_response_def Let_def)
  ultimately show ?thesis
    using iteration_successful_attempts [of e i k u]
      send_packets_successful_attempts [of e i k m u] run_frame [of e js c]
    by simp
qed

theorem successful_attempts_stays_zero_witness:
  "successful_attempts (stats tester0) = 0
 \<and> (\<exists>t' w'. main env_both_read_first args0 world0 = Some (Returned, Some t', w')
      \<and> packets_sent (stats t') = 1 \<and> successful_attempts (stats t') = 0)"
proof -
  note z = successful_attempts_stays_zero [of env0 "''10.0.0.1''" 80 5 2 1024 65507 False world0]
  have "successful_attempts (stats tester0) = 0"
    using z [THEN conjunct1, THEN spec, THEN spec, THEN mp, OF init_example] .
  moreover
  obtain t' w' where m: "main env_both_read_first args0 world0 = Some (Returned, Some t', w')"
    and p: "packets_sent (stats t') = 1"
    using main_both_read_first by simp
  note y = successful_attempts_stays_zero [where e = env_both_read_first and a = args0
      and w = world0]
  have "successful_attempts (stats t') = 0"
    using y [THEN conjunct2, THEN conjunct2, THEN conjunct2, THEN conjunct2, THEN conjunct2,
      THEN conjunct2, THEN conjunct1, THEN spec, THEN spec, THEN spec, THEN mp, OF m] .
  ultimately show ?thesis
    using m p by blast
qed

end
